theory Spec2Isabelle
  imports Main "HOL-Library.Sublist"
begin

section \<open>Strings of the host language\<close>

text \<open>
  Strings are lists of characters, one \<^typ>\<open>char\<close> per code unit; a \<^typ>\<open>char\<close> holds eight
  bits, so the texts of the model are those whose code units are below 256. The
  functions of this section are the string operations that \<^verbatim>\<open>src/extension.ts\<close> calls on
  its inputs: \<^verbatim>\<open>includes\<close>, \<^verbatim>\<open>split\<close> and \<^verbatim>\<open>replace\<close> with the patterns the file uses.
\<close>

text \<open>The index of the first occurrence of a pattern, if there is one.\<close>

fun find_sub :: "string \<Rightarrow> string \<Rightarrow> nat option" where
  "find_sub pat [] = (if pat = [] then Some 0 else None)"
| "find_sub pat (c # cs) =
     (if prefix pat (c # cs) then Some 0 else map_option Suc (find_sub pat cs))"

definition includes_str :: "string \<Rightarrow> string \<Rightarrow> bool" where
  "includes_str s pat = (find_sub pat s \<noteq> None)"

text \<open>
  \<^verbatim>\<open>s.split(sep)\<close>: the pieces between the occurrences of the separator, found from left
  to right; an empty separator splits into single code units.
\<close>

function js_split_from :: "string \<Rightarrow> string \<Rightarrow> string \<Rightarrow> string list" where
  "js_split_from sep cur [] = [cur]"
| "js_split_from sep cur (c # cs) =
     (if sep \<noteq> [] \<and> prefix sep (c # cs)
      then cur # js_split_from sep [] (drop (length sep) (c # cs))
      else js_split_from sep (cur @ [c]) cs)"
  by pat_completeness auto
termination
  by (relation "measure (\<lambda>(sep, cur, s). length s)") auto

definition js_split :: "string \<Rightarrow> string \<Rightarrow> string list" where
  "js_split sep s = (if sep = [] then map (\<lambda>c. [c]) s else js_split_from sep [] s)"

text \<open>The value of a decimal digit.\<close>

definition digit_val :: "char \<Rightarrow> nat option" where
  "digit_val c =
     (let n = (of_char c :: nat) in if 48 \<le> n \<and> n \<le> 57 then Some (n - 48) else None)"

text \<open>
  The replacement text of \<^verbatim>\<open>replace\<close> is a template: \<^verbatim>\<open>$$\<close> stands for a dollar sign,
  \<^verbatim>\<open>$&\<close> for the matched text, \<^verbatim>\<open>$`\<close> and \<^verbatim>\<open>$'\<close> for the text before and after the
  match, \<^verbatim>\<open>$n\<close> and \<^verbatim>\<open>$nn\<close> for a capture group of the pattern. A two-digit reference
  beyond the number of groups is read as a one-digit reference followed by a digit, and a
  reference to no group stays as it is written. None of the patterns of the file has a
  named group, so \<^verbatim>\<open>$<\<close> is literal text.
\<close>

fun get_substitution ::
  "string \<Rightarrow> string \<Rightarrow> string \<Rightarrow> string list \<Rightarrow> string \<Rightarrow> string" where
  "get_substitution m b a caps [] = []"
| "get_substitution m b a caps [c] = [c]"
| "get_substitution m b a caps (c # d # r) =
     (if c \<noteq> CHR ''$'' then c # get_substitution m b a caps (d # r)
      else if d = CHR ''$'' then CHR ''$'' # get_substitution m b a caps r
      else if d = CHR ''&'' then m @ get_substitution m b a caps r
      else if d = CHR 0x60 then b @ get_substitution m b a caps r
      else if d = CHR 0x27 then a @ get_substitution m b a caps r
      else
        (case digit_val d of
           None \<Rightarrow> CHR ''$'' # get_substitution m b a caps (d # r)
         | Some n1 \<Rightarrow>
             (case r of
                [] \<Rightarrow>
                  (if 1 \<le> n1 \<and> n1 \<le> length caps then caps ! (n1 - 1) else [CHR ''$'', d])
              | e # r' \<Rightarrow>
                  (case digit_val e of
                     None \<Rightarrow>
                       (if 1 \<le> n1 \<and> n1 \<le> length caps
                        then caps ! (n1 - 1) @ get_substitution m b a caps (e # r')
                        else CHR ''$'' # d # get_substitution m b a caps (e # r'))
                   | Some n2 \<Rightarrow>
                       (if 10 * n1 + n2 > length caps
                        then
                          (if 1 \<le> n1 \<and> n1 \<le> length caps
                           then caps ! (n1 - 1) @ get_substitution m b a caps (e # r')
                           else CHR ''$'' # d # get_substitution m b a caps (e # r'))
                        else if 1 \<le> 10 * n1 + n2
                        then caps ! (10 * n1 + n2 - 1) @ get_substitution m b a caps r'
                        else CHR ''$'' # d # e # get_substitution m b a caps r')))))"

text \<open>\<^verbatim>\<open>s.replace(pat, repl)\<close> with a string pattern: the first occurrence only.\<close>

definition replace_string :: "string \<Rightarrow> string \<Rightarrow> string \<Rightarrow> string" where
  "replace_string pat repl s =
     (case find_sub pat s of
        None \<Rightarrow> s
      | Some i \<Rightarrow>
          take i s
          @ get_substitution pat (take i s) (drop (i + length pat) s) [] repl
          @ drop (i + length pat) s)"

text \<open>\<^verbatim>\<open>s.replace(/^~\//, repl)\<close>: a leading \<^verbatim>\<open>~/\<close> only.\<close>

definition replace_tilde :: "string \<Rightarrow> string \<Rightarrow> string" where
  "replace_tilde repl s =
     (if prefix ''~/'' s
      then get_substitution ''~/'' [] (drop 2 s) [] repl @ drop 2 s
      else s)"

text \<open>
  \<^verbatim>\<open>s.replace(/^\$\{workspace(Root|Folder)\}/, repl)\<close>: a leading placeholder only; the
  pattern has one group, which holds \<^verbatim>\<open>Root\<close> or \<^verbatim>\<open>Folder\<close>.
\<close>

definition replace_workspace :: "string \<Rightarrow> string \<Rightarrow> string" where
  "replace_workspace repl s =
     (if prefix ''${workspaceRoot}'' s
      then get_substitution ''${workspaceRoot}'' [] (drop 16 s) [''Root''] repl @ drop 16 s
      else if prefix ''${workspaceFolder}'' s
      then get_substitution ''${workspaceFolder}'' [] (drop 18 s) [''Folder''] repl @ drop 18 s
      else s)"

text \<open>
  \<^verbatim>\<open>s.replace(/^.*[\\/]/, '/')\<close>: the dot matches no line terminator and the star is greedy,
  so the match ends at the last slash or backslash of the first line, and the text up to
  it becomes a single slash. Line feed and carriage return are the line terminators
  below 256.
\<close>

definition is_line_terminator :: "char \<Rightarrow> bool" where
  "is_line_terminator c = (c = CHR 0x0A \<or> c = CHR 0x0D)"

definition is_separator :: "char \<Rightarrow> bool" where
  "is_separator c = (c = CHR 0x5C \<or> c = CHR ''/'')"

fun last_separator :: "string \<Rightarrow> nat \<Rightarrow> nat option \<Rightarrow> nat option" where
  "last_separator [] i found = found"
| "last_separator (c # cs) i found =
     (if is_separator c then last_separator cs (Suc i) (Some i)
      else if is_line_terminator c then found
      else last_separator cs (Suc i) found)"

definition replace_dirs :: "string \<Rightarrow> string" where
  "replace_dirs s =
     (case last_separator s 0 None of
        None \<Rightarrow> s
      | Some i \<Rightarrow> ''/'' @ drop (Suc i) s)"

section \<open>Settings, environment and the state of the extension\<close>

text \<open>
  A rule set of the \<^verbatim>\<open>rules\<close> setting is a string or an object. An object is kept as its
  members in enumeration order; a number is kept as the text that the host renders it
  with, floating point not being modelled.
\<close>

datatype json =
    JNull
  | JBool bool
  | JNumber string
  | JString string
  | JArray "json list"
  | JObject "(string \<times> json) list"

datatype rules = RulesString string | RulesObject "(string \<times> json) list" | RulesArray "json list"

text \<open>The interface \<^verbatim>\<open>Config\<close>: every setting may be absent.\<close>

record Config =
  execPath_setting :: "string option"
  rules_setting :: "rules option"
  config_setting :: "string option"
  onsave_setting :: "bool option"

text \<open>
  What the extension reads from its host and from the operating system: the platform
  name, the directory of the extension, the home and the temporary directory, the open
  workspace folders (absent when no workspace is open), the active editor (absent when
  there is none) with the path of its document and the workspace folder that holds it,
  the test for absolute paths of the platform, and the settings that
  \<^verbatim>\<open>workspace.getConfiguration\<close> returns (absent when the call throws).
\<close>

record editor =
  fsPath :: string
  workspaceFolder :: "string option"

record env =
  platform :: string
  dirname :: string
  homedir :: string
  tmpdir :: string
  workspaceFolders :: "string list option"
  activeTextEditor :: "editor option"
  isAbsolute :: "string \<Rightarrow> bool"
  getConfiguration :: "Config option"

text \<open>The fields of the class \<^verbatim>\<open>PHPCSFIXER\<close>; a field never assigned is absent.\<close>

record fixer =
  isReloadingConfig :: bool
  isDeactivating :: bool
  isFixing :: bool
  config :: "Config option"
  fixOnSave :: bool
  realExecPath :: "string option"
  execPath :: "string option"

datatype error = TypeError | ENOENT | EISDIR | IllegalLine

subsection \<open>\<^verbatim>\<open>readConfig\<close>\<close>

definition default_execPath :: "env \<Rightarrow> string" where
  "default_execPath e = (if platform e = ''win32'' then ''php-cs-fixer.bat'' else ''php-cs-fixer'')"

definition readConfig :: "env \<Rightarrow> fixer \<Rightarrow> fixer" where
  "readConfig e this =
     (if isReloadingConfig this then this
      else
        (case getConfiguration e of
           None \<Rightarrow> this\<lparr>isReloadingConfig := False\<rparr>
         | Some c \<Rightarrow>
             (let this1 = this\<lparr>isReloadingConfig := True, config := Some c\<rparr>;
                  this2 =
                    (if onsave_setting c = Some True \<and> \<not> fixOnSave this1
                     then this1\<lparr>fixOnSave := True\<rparr>
                     else if onsave_setting c \<noteq> Some True \<and> fixOnSave this1
                     then this1\<lparr>fixOnSave := False\<rparr>
                     else this1);
                  path =
                    (case execPath_setting c of
                       None \<Rightarrow> default_execPath e
                     | Some p \<Rightarrow> if p = [] then default_execPath e else p)
              in this2\<lparr>execPath :=
                          Some (replace_tilde (homedir e @ ''/'')
                                  (replace_string ''${extensionPath}'' (dirname e) path)),
                        isReloadingConfig := False\<rparr>)))"

section \<open>The file system, the user interface and child processes\<close>

text \<open>
  A path names a file with its content, a directory, or nothing. Paths are compared as
  they are written. The temporary directory is taken to exist and to be writable, and
  \<^verbatim>\<open>unlink\<close>, whose callback ignores the error, is taken to be done when its caller returns.
\<close>

datatype node = File string | Directory

datatype ui_call =
    StatusBarMessage string nat
  | InformationMessage string
  | ErrorMessage string
  | WarningMessage string

record world =
  fs :: "string \<Rightarrow> node option"
  ui :: "ui_call list"
  spawned :: "(string \<times> string list) list"
  uncaught :: "error list"

definition existsSync :: "world \<Rightarrow> string \<Rightarrow> bool" where
  "existsSync w p = (fs w p \<noteq> None)"

definition writeFileSync :: "string \<Rightarrow> string \<Rightarrow> world \<Rightarrow> error + world" where
  "writeFileSync p t w =
     (case fs w p of
        Some Directory \<Rightarrow> Inl EISDIR
      | _ \<Rightarrow> Inr (w\<lparr>fs := (fs w)(p \<mapsto> File t)\<rparr>))"

definition readFileSync :: "string \<Rightarrow> world \<Rightarrow> error + string" where
  "readFileSync p w =
     (case fs w p of
        None \<Rightarrow> Inl ENOENT
      | Some Directory \<Rightarrow> Inl EISDIR
      | Some (File c) \<Rightarrow> Inr c)"

definition unlink :: "string \<Rightarrow> world \<Rightarrow> world" where
  "unlink p w =
     (case fs w p of
        Some (File c) \<Rightarrow> w\<lparr>fs := (fs w)(p := None)\<rparr>
      | _ \<Rightarrow> w)"

definition spawn :: "string \<Rightarrow> string list \<Rightarrow> world \<Rightarrow> world" where
  "spawn command args w = w\<lparr>spawned := spawned w @ [(command, args)]\<rparr>"

definition showView :: "string \<Rightarrow> string \<Rightarrow> world \<Rightarrow> world" where
  "showView type message w =
     (if type = ''success'' then w\<lparr>ui := ui w @ [StatusBarMessage message 5000]\<rparr>
      else if type = ''info'' then w\<lparr>ui := ui w @ [InformationMessage message]\<rparr>
      else if type = ''error'' then w\<lparr>ui := ui w @ [ErrorMessage message]\<rparr>
      else if type = ''warning'' then w\<lparr>ui := ui w @ [WarningMessage message]\<rparr>
      else w)"

section \<open>\<^verbatim>\<open>JSON.stringify\<close>\<close>

definition hex_digit :: "nat \<Rightarrow> char" where
  "hex_digit n = (if n < 16 then ''0123456789abcdef'' ! n else CHR ''0'')"

definition quote_char :: "char \<Rightarrow> string" where
  "quote_char c =
     (if c = CHR 0x08 then [CHR 0x5C, CHR ''b'']
      else if c = CHR 0x09 then [CHR 0x5C, CHR ''t'']
      else if c = CHR 0x0A then [CHR 0x5C, CHR ''n'']
      else if c = CHR 0x0C then [CHR 0x5C, CHR ''f'']
      else if c = CHR 0x0D then [CHR 0x5C, CHR ''r'']
      else if c = CHR 0x22 then [CHR 0x5C, CHR 0x22]
      else if c = CHR 0x5C then [CHR 0x5C, CHR 0x5C]
      else if (of_char c :: nat) < 32
      then [CHR 0x5C, CHR ''u'', CHR ''0'', CHR ''0'',
            hex_digit ((of_char c :: nat) div 16), hex_digit ((of_char c :: nat) mod 16)]
      else [c])"

definition quote :: "string \<Rightarrow> string" where
  "quote s = [CHR 0x22] @ concat (map quote_char s) @ [CHR 0x22]"

fun join_with :: "string \<Rightarrow> string list \<Rightarrow> string" where
  "join_with sep [] = []"
| "join_with sep [x] = x"
| "join_with sep (x # y # ys) = x @ sep @ join_with sep (y # ys)"

fun stringify :: "json \<Rightarrow> string" where
  "stringify JNull = ''null''"
| "stringify (JBool b) = (if b then ''true'' else ''false'')"
| "stringify (JNumber t) = t"
| "stringify (JString s) = quote s"
| "stringify (JArray xs) = ''['' @ join_with '','' (map stringify xs) @ '']''"
| "stringify (JObject kvs) =
     ''{'' @ join_with '','' (map (\<lambda>kv. quote (fst kv) @ '':'' @ stringify (snd kv)) kvs) @ ''}''"

section \<open>\<^verbatim>\<open>getArgs\<close>\<close>

definition getActiveWorkspacePath :: "env \<Rightarrow> error + string option" where
  "getActiveWorkspacePath e =
     (case activeTextEditor e of
        None \<Rightarrow> Inl TypeError
      | Some ed \<Rightarrow> Inr (workspaceFolder ed))"

definition base_args :: "string list" where
  "base_args = [''fix'', ''--using-cache=no'', ''--path-mode=override'', ''-vv'']"

text \<open>The entries of the \<^verbatim>\<open>config\<close> setting, line 123.\<close>

definition cFiles :: "env \<Rightarrow> string \<Rightarrow> string list" where
  "cFiles e s =
     map (replace_tilde (homedir e @ ''/'')) (filter (\<lambda>f. [] \<noteq> f) (js_split '';'' s))"

text \<open>
  Lines 127 to 130. The replacement text is an argument of the call, so it is evaluated
  whether the pattern matches or not, and reading the first workspace folder of an empty
  list throws.
\<close>

definition set_realExecPath :: "env \<Rightarrow> string option \<Rightarrow> fixer \<Rightarrow> error + fixer" where
  "set_realExecPath e rootPath this =
     (case workspaceFolders e of
        None \<Rightarrow> Inr this
      | Some folders \<Rightarrow>
          (case execPath this of
             None \<Rightarrow> Inl TypeError
           | Some p \<Rightarrow>
               (case (case rootPath of
                        None \<Rightarrow> None
                      | Some r \<Rightarrow> if r = [] then None else Some r) of
                  Some r \<Rightarrow> Inr (this\<lparr>realExecPath := Some (replace_workspace r p)\<rparr>)
                | None \<Rightarrow>
                    (case folders of
                       [] \<Rightarrow> Inl TypeError
                     | f # rest \<Rightarrow> Inr (this\<lparr>realExecPath := Some (replace_workspace f p)\<rparr>)))))"

text \<open>Lines 131 to 133.\<close>

definition searchPaths :: "string option \<Rightarrow> string list" where
  "searchPaths rootPath =
     (case rootPath of
        None \<Rightarrow> []
      | Some r \<Rightarrow>
          map (\<lambda>f. r @ ''/'' @ (if f \<noteq> [] then f @ ''/'' else [])) [''.vscode'', []])"

text \<open>The loop of lines 134 to 142, with the array \<^verbatim>\<open>files\<close> as accumulator.\<close>

fun push_search :: "string list \<Rightarrow> string \<Rightarrow> string list \<Rightarrow> string list" where
  "push_search [] file files = files"
| "push_search (searchPath # rest) file files = push_search rest file (files @ [searchPath @ file])"

fun push_files :: "(string \<Rightarrow> bool) \<Rightarrow> string list \<Rightarrow> string list \<Rightarrow> string list \<Rightarrow> string list" where
  "push_files isAbs paths [] files = files"
| "push_files isAbs paths (file # rest) files =
     push_files isAbs paths rest
       (if isAbs file then files @ [file]
        else if length paths > 0 then push_search paths file files
        else files)"

text \<open>
  The loop of lines 143 to 149: the index runs up to the length read at the start, and
  the loop is left at the first file that exists.
\<close>

function scan_files ::
  "world \<Rightarrow> string list \<Rightarrow> nat \<Rightarrow> nat \<Rightarrow> string list \<times> bool \<Rightarrow> string list \<times> bool" where
  "scan_files w files i len (args, useConfig) =
     (if i < len
      then
        (if i < length files \<and> existsSync w (files ! i)
         then (args @ [''--config='' @ files ! i], True)
         else scan_files w files (Suc i) len (args, useConfig))
      else (args, useConfig))"
  by pat_completeness auto
termination
  by (relation "measure (\<lambda>(w, files, i, len, a). len - i)") auto

declare scan_files.simps [simp del]

text \<open>The candidate files of lines 123 to 142, in the order in which they are pushed.\<close>

definition config_files :: "env \<Rightarrow> string option \<Rightarrow> string \<Rightarrow> string list" where
  "config_files e rootPath s = push_files (isAbsolute e) (searchPaths rootPath) (cFiles e s) []"

text \<open>Lines 150 to 156.\<close>

definition push_rules :: "Config \<Rightarrow> string list \<times> bool \<Rightarrow> string list" where
  "push_rules c r =
     (case r of (args, useConfig) \<Rightarrow>
        (if useConfig then args
         else
           (case rules_setting c of
              None \<Rightarrow> args
            | Some (RulesString s) \<Rightarrow> if s = [] then args else args @ [''--rules='' @ s]
            | Some (RulesObject kvs) \<Rightarrow> args @ [''--rules='' @ stringify (JObject kvs)]
            | Some (RulesArray xs) \<Rightarrow> args @ [''--rules='' @ stringify (JArray xs)])))"

text \<open>
  The method returns the arguments or throws; the field \<^verbatim>\<open>realExecPath\<close> keeps what was
  assigned before a throw.
\<close>

definition getArgs :: "env \<Rightarrow> world \<Rightarrow> fixer \<Rightarrow> (error + string list) \<times> fixer" where
  "getArgs e w this =
     (case getActiveWorkspacePath e of
        Inl err \<Rightarrow> (Inl err, this)
      | Inr rootPath \<Rightarrow>
          (case config this of
             None \<Rightarrow> (Inl TypeError, this)
           | Some c \<Rightarrow>
               (case config_setting c of
                  None \<Rightarrow> (Inl TypeError, this)
                | Some s \<Rightarrow>
                    (case set_realExecPath e rootPath (this\<lparr>realExecPath := None\<rparr>) of
                       Inl err \<Rightarrow> (Inl err, this\<lparr>realExecPath := None\<rparr>)
                     | Inr this' \<Rightarrow>
                         (let files = config_files e rootPath s
                          in (Inr (push_rules c (scan_files w files 0 (length files) (base_args, False))),
                              this'))))))"

section \<open>\<^verbatim>\<open>fixDocument\<close>\<close>

text \<open>
  A promise is pending, resolved with a value or rejected with a reason: nothing
  (\<^verbatim>\<open>reject()\<close>), a message, the error object of the child process, or what a throw
  in the body of an asynchronous method carries. Once settled it stays as it is.
\<close>

datatype reason = NoReason | Message string | ErrorObject string | Thrown error

datatype 'a promise = Pending | Resolved 'a | Rejected reason

definition settle :: "'a promise \<Rightarrow> 'a promise \<Rightarrow> 'a promise" where
  "settle outcome p = (if p = Pending then outcome else p)"

text \<open>
  What a child process does, as its parent sees it: data on its two streams, changes of
  the file system, and the events \<^verbatim>\<open>error\<close> and \<^verbatim>\<open>exit\<close>. The exit code is absent when a
  signal ended the process.
\<close>

datatype proc_event =
    StdoutData string
  | StderrData string
  | FileWritten string "node option"
  | ErrorEvent string
  | ExitEvent "int option"

text \<open>The listener of lines 173 to 181.\<close>

definition lint_marker :: string where
  "lint_marker = ''Files that were not fixed due to errors reported during linting before fixing:''"

definition outdated_marker :: string where
  "outdated_marker = ''Configuration file `.php_cs` is outdated, rename to `.php-cs-fixer.php`.''"

definition on_stderr_data :: "string \<Rightarrow> world \<Rightarrow> world" where
  "on_stderr_data err w =
     (if includes_str err lint_marker
      then showView ''error''
             (''phpcsfixer: php syntax error''
              @ (case js_split ''before fixing:'' err of
                   x # detail # rest \<Rightarrow> detail
                 | _ \<Rightarrow> ''undefined''))
             w
      else if includes_str err outdated_marker
      then showView ''info'' outdated_marker w
      else w)"

text \<open>The listener of lines 183 to 185.\<close>

definition on_error :: "string \<Rightarrow> 'a promise \<Rightarrow> 'a promise" where
  "on_error err p = settle (Rejected (ErrorObject err)) p"

text \<open>
  The table of lines 196 to 202 and the lookup of line 203: a code is a key of the
  table when it is one of the four numbers.
\<close>

datatype msg_key = Code int | Fallback

definition msgs :: "(msg_key \<times> string) list" where
  "msgs =
     [(Code 1, ''PHP CS Fixer: php general error.''),
      (Code 16, ''PHP CS Fixer: Configuration error of the application.''),
      (Code 32, ''PHP CS Fixer: Configuration error of a Fixer.''),
      (Code 64, ''PHP CS Fixer: Exception raised within the application.''),
      (Fallback, ''PHP CS Fixer: Unknown error.'')]"

definition msg_for :: "int option \<Rightarrow> string" where
  "msg_for code =
     (let key =
        (case code of
           None \<Rightarrow> Fallback
         | Some n \<Rightarrow> if map_of msgs (Code n) \<noteq> None then Code n else Fallback)
      in case map_of msgs key of None \<Rightarrow> ''undefined'' | Some msg \<Rightarrow> msg)"

text \<open>
  The listener of lines 186 to 210. When reading the file throws, the listener is left
  at once: the promise, the flag and the file stay as they are.
\<close>

definition on_exit ::
  "string \<Rightarrow> int option \<Rightarrow> string option promise \<times> fixer \<times> world \<Rightarrow>
     string option promise \<times> fixer \<times> world" where
  "on_exit filePath code s =
     (case s of (p, this, w) \<Rightarrow>
        (if code = Some 0
         then
           (case readFileSync filePath w of
              Inl err \<Rightarrow> (p, this, w\<lparr>uncaught := uncaught w @ [err]\<rparr>)
            | Inr fixed \<Rightarrow>
                ((if length fixed > 0 then settle (Resolved (Some fixed)) p
                  else settle (Rejected NoReason) p),
                 this\<lparr>isFixing := False\<rparr>,
                 unlink filePath (showView ''success'' ''PHP CS Fixer: Fixed all files!'' w)))
         else
           (settle (Rejected (Message (msg_for code))) p,
            this\<lparr>isFixing := False\<rparr>,
            unlink filePath
              (if code \<noteq> Some 16 then showView ''error'' (msg_for code) w else w))))"

fun deliver ::
  "string \<Rightarrow> proc_event \<Rightarrow> string option promise \<times> fixer \<times> world \<Rightarrow>
     string option promise \<times> fixer \<times> world" where
  "deliver filePath (StdoutData buffer) (p, this, w) = (p, this, w)"
| "deliver filePath (StderrData buffer) (p, this, w) = (p, this, on_stderr_data buffer w)"
| "deliver filePath (FileWritten path n) (p, this, w) = (p, this, w\<lparr>fs := (fs w)(path := n)\<rparr>)"
| "deliver filePath (ErrorEvent err) (p, this, w) = (on_error err p, this, w)"
| "deliver filePath (ExitEvent code) (p, this, w) = on_exit filePath code (p, this, w)"

text \<open>The listeners at work on what the child process does, in order.\<close>

definition run_process ::
  "string \<Rightarrow> proc_event list \<Rightarrow> string option promise \<times> fixer \<times> world \<Rightarrow>
     string option promise \<times> fixer \<times> world" where
  "run_process filePath events s = fold (deliver filePath) events s"

text \<open>
  Lines 161 to 169, up to the call of \<^verbatim>\<open>spawn\<close>, which throws when the command is not
  a string or is empty. The method is asynchronous: a \<^verbatim>\<open>return\<close> without value resolves
  its promise with nothing, and a throw rejects it, with the fields as they are at the
  throw.
\<close>

datatype started = Settled "string option promise" | Spawned string

definition fixDocument_start :: "env \<Rightarrow> string \<Rightarrow> fixer \<Rightarrow> world \<Rightarrow> started \<times> fixer \<times> world" where
  "fixDocument_start e text this w =
     (if isFixing this then (Settled (Resolved None), this, w)
      else
        (case activeTextEditor e of
           None \<Rightarrow> (Settled (Rejected (Thrown TypeError)), this\<lparr>isFixing := True\<rparr>, w)
         | Some ed \<Rightarrow>
             (let filePath = tmpdir e @ replace_dirs (fsPath ed) in
              case writeFileSync filePath text w of
                Inl err \<Rightarrow> (Settled (Rejected (Thrown err)), this\<lparr>isFixing := True\<rparr>, w)
              | Inr w1 \<Rightarrow>
                  (case getArgs e w1 (this\<lparr>isFixing := True\<rparr>) of
                     (Inl err, this1) \<Rightarrow> (Settled (Rejected (Thrown err)), this1, w1)
                   | (Inr args, this1) \<Rightarrow>
                       (case (case realExecPath this1 of
                                None \<Rightarrow> execPath this1
                              | Some r \<Rightarrow> if r = [] then execPath this1 else Some r) of
                          None \<Rightarrow> (Settled (Rejected (Thrown TypeError)), this1, w1)
                        | Some command \<Rightarrow>
                            if command = [] then (Settled (Rejected (Thrown TypeError)), this1, w1)
                            else (Spawned filePath, this1, spawn command (args @ [filePath]) w1))))))"

text \<open>
  One call of \<^verbatim>\<open>fixDocument\<close> with the run of the child process that it spawns: the
  promise it returns, the fields and the world when the run is over.
\<close>

definition fixDocument ::
  "env \<Rightarrow> proc_event list \<Rightarrow> string \<Rightarrow> fixer \<Rightarrow> world \<Rightarrow> string option promise \<times> fixer \<times> world" where
  "fixDocument e events text this w =
     (case fixDocument_start e text this w of
        (Settled p, this1, w1) \<Rightarrow> (p, this1, w1)
      | (Spawned filePath, this1, w1) \<Rightarrow> run_process filePath events (Pending, this1, w1))"

section \<open>\<^verbatim>\<open>registerDocumentProvider\<close>\<close>

text \<open>
  A document is its lines and the line break between them. Asking for a line that the
  document does not have throws, and a throw in the executor of the promise rejects it.
\<close>

record document =
  doc_lines :: "string list"
  doc_eol :: string

datatype position = Position nat nat

datatype range = Range_edit position position

datatype text_edit = TextEdit range "string option"

definition getText :: "document \<Rightarrow> string" where
  "getText d = join_with (doc_eol d) (doc_lines d)"

definition lineCount :: "document \<Rightarrow> nat" where
  "lineCount d = length (doc_lines d)"

definition lineAt_end :: "document \<Rightarrow> nat \<Rightarrow> error + position" where
  "lineAt_end d n =
     (if n < lineCount d then Inr (Position n (length (doc_lines d ! n))) else Inl IllegalLine)"

definition registerDocumentProvider ::
  "env \<Rightarrow> proc_event list \<Rightarrow> document \<Rightarrow> fixer \<Rightarrow> world \<Rightarrow> text_edit list promise \<times> fixer \<times> world" where
  "registerDocumentProvider e events d this w =
     (let oText = getText d in
      case (if lineCount d = 0 then Inl IllegalLine else lineAt_end d (lineCount d - 1)) of
        Inl err \<Rightarrow> (Rejected (Thrown err), this, w)
      | Inr lEnd \<Rightarrow>
          (let range = Range_edit (Position 0 0) lEnd in
           case fixDocument e events oText this w of
             (Resolved text, this1, w1) \<Rightarrow>
               (if text \<noteq> Some oText then (Resolved [TextEdit range text], this1, w1)
                else (Resolved [], this1, w1))
           | (Rejected err, this1, w1) \<Rightarrow> (Rejected err, this1, w1)
           | (Pending, this1, w1) \<Rightarrow> (Pending, this1, w1)))"

section \<open>The table of failures as the specification words it\<close>

text \<open>
  The specification names the failure that each exit code stands for. The kinds of
  failure are those names; \<open>claimed_kind\<close> is the table in the specification's words, and
  \<open>kind_message\<close> gives each kind the message of the source that words it.
\<close>

datatype failure_kind =
    General_error
  | Fixer_configuration_error
  | Application_configuration_error
  | Exception_raised
  | Unknown_error

definition claimed_kind :: "int \<Rightarrow> failure_kind" where
  "claimed_kind code =
     (if code = 1 then General_error
      else if code = 16 then Fixer_configuration_error
      else if code = 32 then Application_configuration_error
      else if code = 64 then Exception_raised
      else Unknown_error)"

fun kind_message :: "failure_kind \<Rightarrow> string" where
  "kind_message General_error = ''PHP CS Fixer: php general error.''"
| "kind_message Fixer_configuration_error = ''PHP CS Fixer: Configuration error of a Fixer.''"
| "kind_message Application_configuration_error = ''PHP CS Fixer: Configuration error of the application.''"
| "kind_message Exception_raised = ''PHP CS Fixer: Exception raised within the application.''"
| "kind_message Unknown_error = ''PHP CS Fixer: Unknown error.''"

section \<open>Example inputs\<close>

text \<open>
  A Linux host with the workspace folder \<^verbatim>\<open>/w\<close> open, the document \<^verbatim>\<open>/w/src/a.php\<close> in the
  active editor, and settings that leave \<^verbatim>\<open>execPath\<close> unset.
\<close>

definition ex_config :: Config where
  "ex_config =
     \<lparr>execPath_setting = None,
      rules_setting = Some (RulesString ''@PSR2''),
      config_setting = Some ''.php-cs-fixer.php;.php-cs-fixer.dist.php;~/x.php'',
      onsave_setting = None\<rparr>"

definition ex_env :: env where
  "ex_env =
     \<lparr>platform = ''linux'', dirname = ''/ext'', homedir = ''/home/u'', tmpdir = ''/tmp'',
      workspaceFolders = Some [''/w''],
      activeTextEditor = Some \<lparr>fsPath = ''/w/src/a.php'', workspaceFolder = Some ''/w''\<rparr>,
      isAbsolute = prefix ''/'',
      getConfiguration = Some ex_config\<rparr>"

definition ex_new :: fixer where
  "ex_new =
     \<lparr>isReloadingConfig = False, isDeactivating = False, isFixing = False, config = None,
      fixOnSave = False, realExecPath = None, execPath = None\<rparr>"

definition ex_fixer :: fixer where
  "ex_fixer =
     \<lparr>isReloadingConfig = False, isDeactivating = False, isFixing = False,
      config = Some ex_config, fixOnSave = False, realExecPath = None,
      execPath = Some ''php-cs-fixer''\<rparr>"

definition ex_world :: world where
  "ex_world =
     \<lparr>fs = (\<lambda>p. if p = ''/w/.php-cs-fixer.dist.php'' then Some (File ''<?php return 1;'')
                else if p = ''/home/u/x.php'' then Some (File ''<?php return 2;'')
                else None),
      ui = [], spawned = [], uncaught = []\<rparr>"

text \<open>
  Settings with a rule object, and a world in which no candidate configuration file
  exists.
\<close>

definition ex_config_rules :: Config where
  "ex_config_rules =
     \<lparr>execPath_setting = None,
      rules_setting =
        Some (RulesObject
               [(''@PSR2'', JBool True), (''array_syntax'', JObject [(''syntax'', JString ''short'')])]),
      config_setting = Some ''.php-cs-fixer.php'',
      onsave_setting = None\<rparr>"

definition ex_empty_world :: world where
  "ex_empty_world = \<lparr>fs = (\<lambda>p. None), ui = [], spawned = [], uncaught = []\<rparr>"

text \<open>A document of two lines.\<close>

definition ex_document :: document where
  "ex_document = \<lparr>doc_lines = [''<?php'', ''   echo 1;''], doc_eol = [CHR 0x0A]\<rparr>"

section \<open>Properties of the argument list\<close>

lemma push_search_eq: "push_search paths f files = files @ map (\<lambda>searchPath. searchPath @ f) paths"
  by (induction paths f files rule: push_search.induct) auto

lemma push_files_eq:
  "push_files isAbs paths entries files =
     files @ concat (map (\<lambda>f. if isAbs f then [f] else map (\<lambda>searchPath. searchPath @ f) paths) entries)"
  by (induction isAbs paths entries files rule: push_files.induct) (auto simp: push_search_eq)

lemma scan_files_eq:
  "i \<le> length files \<Longrightarrow>
   scan_files w files i (length files) (args, useConfig) =
     (case find (existsSync w) (drop i files) of
        Some p \<Rightarrow> (args @ [''--config='' @ p], True)
      | None \<Rightarrow> (args, useConfig))"
proof (induction "length files - i" arbitrary: i)
  case 0
  then show ?case by (simp add: scan_files.simps)
next
  case (Suc n)
  then have lt: "i < length files" by simp
  then have d: "drop i files = files ! i # drop (Suc i) files"
    by (simp add: Cons_nth_drop_Suc)
  show ?case
  proof (cases "existsSync w (files ! i)")
    case True
    with lt d show ?thesis by (simp add: scan_files.simps)
  next
    case False
    from Suc have "n = length files - Suc i" and "Suc i \<le> length files" by simp_all
    from Suc.hyps(1) [OF this] False lt d show ?thesis
      by (subst scan_files.simps) simp
  qed
qed

lemma push_rules_found: "push_rules c (args, True) = args"
  by (simp add: push_rules_def)

lemma push_rules_not_found: "push_rules c (args, False) = args @ push_rules c ([], False)"
  by (simp add: push_rules_def split: option.splits rules.splits)

lemma getArgs_eq:
  assumes "activeTextEditor e = Some ed"
    and "config this = Some c"
    and "config_setting c = Some s"
    and "set_realExecPath e (workspaceFolder ed) (this\<lparr>realExecPath := None\<rparr>) = Inr this'"
  shows "getArgs e w this =
     (Inr (base_args @
        (case find (existsSync w) (config_files e (workspaceFolder ed) s) of
           Some p \<Rightarrow> [''--config='' @ p]
         | None \<Rightarrow> push_rules c ([], False))), this')"
proof -
  define files where "files = config_files e (workspaceFolder ed) s"
  have scan: "push_rules c (scan_files w files 0 (length files) (base_args, False)) =
        base_args @
        (case find (existsSync w) files of
           Some p \<Rightarrow> [''--config='' @ p]
         | None \<Rightarrow> push_rules c ([], False))"
  proof (cases "find (existsSync w) files")
    case None
    then show ?thesis
      using push_rules_not_found [of c base_args] by (simp add: scan_files_eq)
  next
    case (Some p)
    then show ?thesis by (simp add: scan_files_eq push_rules_found)
  qed
  have "getArgs e w this =
      (Inr (push_rules c (scan_files w files 0 (length files) (base_args, False))), this')"
    using assms by (simp add: getArgs_def getActiveWorkspacePath_def Let_def files_def)
  then show ?thesis using scan unfolding files_def by simp
qed

lemma concat_map_entries:
  "concat (map (\<lambda>f. if isAbs f then [f] else map (\<lambda>searchPath. searchPath @ f) [r @ a, r @ b]) entries) =
   concat (map (\<lambda>f. if isAbs f then [f] else [r @ a @ f, r @ b @ f]) entries)"
  by (induction entries) auto

lemma concat_map_absolute:
  "concat (map (\<lambda>f. if isAbs f then [f] else map (\<lambda>searchPath. searchPath @ f) []) entries) =
   filter isAbs entries"
  by (induction entries) auto

lemma config_files_eq:
  "config_files e (Some root) s =
     concat (map (\<lambda>f. if isAbsolute e f then [f] else [root @ ''/.vscode/'' @ f, root @ ''/'' @ f])
               (cFiles e s))"
  by (simp add: config_files_def push_files_eq searchPaths_def concat_map_entries)

lemma config_files_no_root:
  "config_files e None s = filter (isAbsolute e) (cFiles e s)"
  by (simp add: config_files_def push_files_eq searchPaths_def concat_map_absolute)

lemma find_first_existing:
  "files = before @ p # later \<Longrightarrow> P p \<Longrightarrow> \<forall>q\<in>set before. \<not> P q \<Longrightarrow> find P files = Some p"
  by (induction before arbitrary: files) auto

lemma no_config_in_base_args: "filter (prefix ''--config='') base_args = []"
  by (simp add: base_args_def)

lemma no_config_in_rules: "filter (prefix ''--config='') (push_rules c ([], False)) = []"
  by (simp add: push_rules_def split: option.splits rules.splits)

lemma no_rules_in_base_args: "filter (prefix ''--rules='') base_args = []"
  by (simp add: base_args_def)

lemma set_realExecPath_workspace:
  "workspaceFolders e = Some (folder # folders) \<Longrightarrow> execPath this = Some p \<Longrightarrow>
   \<exists>this'. set_realExecPath e rootPath (this\<lparr>realExecPath := None\<rparr>) = Inr this'"
  by (simp add: set_realExecPath_def split: option.splits)

section \<open>Properties of a run\<close>

lemma settle_Pending: "settle q Pending = q"
  by (simp add: settle_def)

lemma settle_settled: "p \<noteq> Pending \<Longrightarrow> settle q p = p"
  by (simp add: settle_def)

lemma deliver_settled: "p \<noteq> Pending \<Longrightarrow> fst (deliver fp ev (p, t, w)) = p"
  by (cases ev) (auto simp: on_error_def on_exit_def settle_def split: sum.splits)

lemma run_process_settled:
  "fst s \<noteq> Pending \<Longrightarrow> fst (run_process fp evs s) = fst s"
proof (induction evs arbitrary: s)
  case Nil
  then show ?case by (simp add: run_process_def)
next
  case (Cons ev evs)
  obtain p t w where s: "s = (p, t, w)" by (cases s)
  with Cons.prems have "fst (deliver fp ev s) = p" by (simp add: deliver_settled)
  with Cons.prems s have "fst (deliver fp ev s) \<noteq> Pending" by simp
  from Cons.IH [OF this] show ?case
    using \<open>fst (deliver fp ev s) = p\<close> s by (simp add: run_process_def)
qed

lemma run_process_append:
  "run_process fp (xs @ ys) s = run_process fp ys (run_process fp xs s)"
  by (simp add: run_process_def)

lemma start_settled:
  "fixDocument_start e text this w = (Settled p, t1, w1) \<Longrightarrow> p \<noteq> Pending"
  by (auto simp: fixDocument_start_def Let_def split: if_splits option.splits sum.splits prod.splits)

lemma start_spawned:
  "fixDocument_start e text this w = (Spawned fp, t1, w1) \<Longrightarrow> activeTextEditor e = Some ed \<Longrightarrow>
   fp = tmpdir e @ replace_dirs (fsPath ed)"
  by (auto simp: fixDocument_start_def Let_def split: if_splits option.splits sum.splits prod.splits)

lemma fixDocument_in_flight:
  assumes "fst (fixDocument e pre text this w) = Pending" and "activeTextEditor e = Some ed"
  shows "fixDocument e (pre @ evs) text this w =
         run_process (tmpdir e @ replace_dirs (fsPath ed)) evs (fixDocument e pre text this w)"
proof -
  obtain st t1 w1 where start: "fixDocument_start e text this w = (st, t1, w1)"
    by (cases "fixDocument_start e text this w")
  show ?thesis
  proof (cases st)
    case (Settled p)
    with start assms(1) have "p = Pending" by (simp add: fixDocument_def)
    moreover from start Settled have "p \<noteq> Pending" by (simp add: start_settled)
    ultimately show ?thesis by simp
  next
    case (Spawned fp)
    with start assms(2) have "fp = tmpdir e @ replace_dirs (fsPath ed)"
      by (simp add: start_spawned)
    with start Spawned show ?thesis
      by (simp add: fixDocument_def run_process_append)
  qed
qed

lemma on_exit_Pending_0:
  "readFileSync filePath w = Inr fixed \<Longrightarrow>
   on_exit filePath (Some 0) (Pending, this, w) =
     ((if fixed \<noteq> [] then Resolved (Some fixed) else Rejected NoReason),
      this\<lparr>isFixing := False\<rparr>,
      unlink filePath (showView ''success'' ''PHP CS Fixer: Fixed all files!'' w))"
  by (simp add: on_exit_def settle_def)

lemma on_exit_Pending_failed:
  "code \<noteq> Some 0 \<Longrightarrow>
   on_exit filePath code (Pending, this, w) =
     (Rejected (Message (msg_for code)),
      this\<lparr>isFixing := False\<rparr>,
      unlink filePath (if code \<noteq> Some 16 then showView ''error'' (msg_for code) w else w))"
  by (simp add: on_exit_def settle_def)

lemma ui_unlink: "ui (unlink p w) = ui w"
  by (simp add: unlink_def split: option.splits node.splits)

lemma run_process_exit:
  "run_process fp (ExitEvent code # post) s = run_process fp post (on_exit fp code s)"
  by (cases s) (simp add: run_process_def)

lemma run_process_exit_only:
  "run_process fp [ExitEvent code] s = on_exit fp code s"
  by (cases s) (simp add: run_process_def)

lemma in_flight_editor:
  assumes "fst (fixDocument e pre text this w) = Pending"
  obtains ed where "activeTextEditor e = Some ed"
proof (cases "activeTextEditor e")
  case None
  then have "fst (fixDocument e pre text this w) \<noteq> Pending"
    by (simp add: fixDocument_def fixDocument_start_def)
  with assms show ?thesis by simp
next
  case (Some ed)
  then show ?thesis by (rule that)
qed

lemma in_flight_exit:
  assumes "fst (fixDocument e pre text this w) = Pending"
  obtains fp t1 w1 where "fixDocument e pre text this w = (Pending, t1, w1)"
    and "\<And>code post. fixDocument e (pre @ ExitEvent code # post) text this w =
           run_process fp post (on_exit fp code (Pending, t1, w1))"
proof -
  obtain ed where ed: "activeTextEditor e = Some ed"
    using assms by (rule in_flight_editor)
  obtain t1 w1 where s: "fixDocument e pre text this w = (Pending, t1, w1)"
    using assms by (cases "fixDocument e pre text this w") auto
  show ?thesis
  proof (rule that [OF s])
    fix code post
    show "fixDocument e (pre @ ExitEvent code # post) text this w =
           run_process (tmpdir e @ replace_dirs (fsPath ed)) post
             (on_exit (tmpdir e @ replace_dirs (fsPath ed)) code (Pending, t1, w1))"
      unfolding fixDocument_in_flight [OF assms ed] run_process_exit s ..
  qed
qed

lemma msg_for_eq:
  "msg_for code =
     (if code = Some 1 then ''PHP CS Fixer: php general error.''
      else if code = Some 16 then ''PHP CS Fixer: Configuration error of the application.''
      else if code = Some 32 then ''PHP CS Fixer: Configuration error of a Fixer.''
      else if code = Some 64 then ''PHP CS Fixer: Exception raised within the application.''
      else ''PHP CS Fixer: Unknown error.'')"
  by (cases code) (simp_all add: msg_for_def msgs_def)

section \<open>The example run\<close>

lemma ex_cFiles:
  "cFiles ex_env ''.php-cs-fixer.php;.php-cs-fixer.dist.php;~/x.php'' =
     [''.php-cs-fixer.php'', ''.php-cs-fixer.dist.php'', ''/home/u/x.php'']"
  by (simp add: cFiles_def js_split_def replace_tilde_def ex_env_def)

lemma ex_config_files:
  "config_files ex_env (Some ''/w'') ''.php-cs-fixer.php;.php-cs-fixer.dist.php;~/x.php'' =
     [''/w/.vscode/.php-cs-fixer.php'', ''/w/.php-cs-fixer.php'',
      ''/w/.vscode/.php-cs-fixer.dist.php'', ''/w/.php-cs-fixer.dist.php'', ''/home/u/x.php'']"
proof -
  have "isAbsolute ex_env = prefix ''/''" by (simp add: ex_env_def)
  then show ?thesis
    unfolding config_files_eq ex_cFiles by simp
qed

lemma ex_set_realExecPath:
  "set_realExecPath ex_env (Some ''/w'') (ex_fixer\<lparr>isFixing := b, realExecPath := None\<rparr>) =
     Inr (ex_fixer\<lparr>isFixing := b, realExecPath := Some ''php-cs-fixer''\<rparr>)"
  by (simp add: set_realExecPath_def ex_env_def ex_fixer_def replace_workspace_def)

lemma ex_getArgs:
  assumes "fs w ''/w/.vscode/.php-cs-fixer.php'' = None"
    and "fs w ''/w/.php-cs-fixer.php'' = None"
    and "fs w ''/w/.vscode/.php-cs-fixer.dist.php'' = None"
    and "fs w ''/w/.php-cs-fixer.dist.php'' = Some n"
  shows "getArgs ex_env w (ex_fixer\<lparr>isFixing := b\<rparr>) =
     (Inr (base_args @ [''--config=/w/.php-cs-fixer.dist.php'']),
      ex_fixer\<lparr>isFixing := b, realExecPath := Some ''php-cs-fixer''\<rparr>)"
proof -
  have ed: "activeTextEditor ex_env = Some \<lparr>fsPath = ''/w/src/a.php'', workspaceFolder = Some ''/w''\<rparr>"
    by (simp add: ex_env_def)
  have c: "config (ex_fixer\<lparr>isFixing := b\<rparr>) = Some ex_config" by (simp add: ex_fixer_def)
  have s: "config_setting ex_config = Some ''.php-cs-fixer.php;.php-cs-fixer.dist.php;~/x.php''"
    by (simp add: ex_config_def)
  have r: "set_realExecPath ex_env (workspaceFolder \<lparr>fsPath = ''/w/src/a.php'', workspaceFolder = Some ''/w''\<rparr>)
             (ex_fixer\<lparr>isFixing := b\<rparr>\<lparr>realExecPath := None\<rparr>) =
           Inr (ex_fixer\<lparr>isFixing := b, realExecPath := Some ''php-cs-fixer''\<rparr>)"
    using ex_set_realExecPath [of b] by simp
  show ?thesis
    unfolding getArgs_eq [OF ed c s r]
    using assms by (simp add: ex_config_files existsSync_def)
qed

lemma ex_start:
  "fixDocument_start ex_env text ex_fixer ex_world =
     (Spawned ''/tmp/a.php'',
      ex_fixer\<lparr>isFixing := True, realExecPath := Some ''php-cs-fixer''\<rparr>,
      spawn ''php-cs-fixer'' (base_args @ [''--config=/w/.php-cs-fixer.dist.php'', ''/tmp/a.php''])
        (ex_world\<lparr>fs := (fs ex_world)(''/tmp/a.php'' \<mapsto> File text)\<rparr>))"
proof -
  have ed: "activeTextEditor ex_env = Some \<lparr>fsPath = ''/w/src/a.php'', workspaceFolder = Some ''/w''\<rparr>"
    and nf: "\<not> isFixing ex_fixer" and tmp: "tmpdir ex_env = ''/tmp''"
    by (simp_all add: ex_env_def ex_fixer_def)
  have path: "replace_dirs ''/w/src/a.php'' = ''/a.php''"
    by (simp add: replace_dirs_def is_separator_def is_line_terminator_def)
  have wr: "writeFileSync ''/tmp/a.php'' text ex_world =
      Inr (ex_world\<lparr>fs := (fs ex_world)(''/tmp/a.php'' \<mapsto> File text)\<rparr>)"
    by (simp add: writeFileSync_def ex_world_def)
  have ga: "getArgs ex_env (ex_world\<lparr>fs := (fs ex_world)(''/tmp/a.php'' \<mapsto> File text)\<rparr>)
              (ex_fixer\<lparr>isFixing := True\<rparr>) =
     (Inr (base_args @ [''--config=/w/.php-cs-fixer.dist.php'']),
      ex_fixer\<lparr>isFixing := True, realExecPath := Some ''php-cs-fixer''\<rparr>)"
    by (rule ex_getArgs [where n = "File ''<?php return 1;''"]) (simp_all add: ex_world_def)
  show ?thesis
    by (simp add: fixDocument_start_def ed nf tmp path wr ga Let_def)
qed

lemma ex_fixDocument:
  "fixDocument ex_env events text ex_fixer ex_world =
     run_process ''/tmp/a.php'' events
       (Pending, ex_fixer\<lparr>isFixing := True, realExecPath := Some ''php-cs-fixer''\<rparr>,
        spawn ''php-cs-fixer'' (base_args @ [''--config=/w/.php-cs-fixer.dist.php'', ''/tmp/a.php''])
          (ex_world\<lparr>fs := (fs ex_world)(''/tmp/a.php'' \<mapsto> File text)\<rparr>))"
  by (simp add: fixDocument_def ex_start)

lemma ex_editor:
  "activeTextEditor ex_env = Some \<lparr>fsPath = ''/w/src/a.php'', workspaceFolder = Some ''/w''\<rparr>"
  by (simp add: ex_env_def)

lemma ex_filePath:
  "tmpdir ex_env @ replace_dirs (fsPath \<lparr>fsPath = ''/w/src/a.php'', workspaceFolder = Some ''/w''\<rparr>) = ''/tmp/a.php''"
  by (simp add: ex_env_def replace_dirs_def is_separator_def is_line_terminator_def)

lemma ex_in_flight: "fst (fixDocument ex_env [] text ex_fixer ex_world) = Pending"
  by (simp add: ex_fixDocument run_process_def)

lemma ex_in_flight_ui: "ui (snd (snd (fixDocument ex_env [] text ex_fixer ex_world))) = []"
  unfolding ex_fixDocument by (simp add: run_process_def spawn_def ex_world_def)

lemma ex_getArgs_world:
  "fst (getArgs ex_env ex_world ex_fixer) = Inr (base_args @ [''--config=/w/.php-cs-fixer.dist.php''])"
proof -
  have "getArgs ex_env ex_world (ex_fixer\<lparr>isFixing := False\<rparr>) =
     (Inr (base_args @ [''--config=/w/.php-cs-fixer.dist.php'']),
      ex_fixer\<lparr>isFixing := False, realExecPath := Some ''php-cs-fixer''\<rparr>)"
    by (rule ex_getArgs [where n = "File ''<?php return 1;''"]) (simp_all add: ex_world_def)
  moreover have "ex_fixer\<lparr>isFixing := False\<rparr> = ex_fixer" by (simp add: ex_fixer_def)
  ultimately show ?thesis by simp
qed

lemma ex_rules_fixer:
  "set_realExecPath ex_env (Some ''/w'') (ex_fixer\<lparr>config := Some ex_config_rules\<rparr>\<lparr>realExecPath := None\<rparr>) =
     Inr (ex_fixer\<lparr>config := Some ex_config_rules, realExecPath := Some ''php-cs-fixer''\<rparr>)"
  by (simp add: set_realExecPath_def ex_env_def ex_fixer_def replace_workspace_def)

lemma find_empty_world: "find (existsSync ex_empty_world) files = None"
  by (simp add: find_None_iff existsSync_def ex_empty_world_def)

lemma ex_getText: "getText ex_document = ''<?php'' @ [CHR 0x0A] @ ''   echo 1;''"
  by (simp add: getText_def ex_document_def)

section \<open>The executable path of \<^verbatim>\<open>readConfig\<close>\<close>

lemma replace_default_execPath:
  "replace_tilde h (replace_string ''${extensionPath}'' d (default_execPath e)) = default_execPath e"
  by (simp add: default_execPath_def replace_string_def replace_tilde_def)

text \<open>
  Claim C10. When the \<^verbatim>\<open>execPath\<close> setting is unset or empty, \<^verbatim>\<open>readConfig\<close> takes
  \<^verbatim>\<open>php-cs-fixer.bat\<close> on the platform \<^verbatim>\<open>win32\<close> and \<^verbatim>\<open>php-cs-fixer\<close> on any other, and
  stores that default after the substitution of the placeholder \<^verbatim>\<open>${extensionPath}\<close> and
  the expansion of a leading \<^verbatim>\<open>~/\<close>; neither changes a default, so the default itself is
  stored.
\<close>

theorem readConfig_default_execPath:
  assumes "\<not> isReloadingConfig this"
    and "getConfiguration e = Some c"
    and "execPath_setting c = None \<or> execPath_setting c = Some []"
  shows "execPath (readConfig e this) =
           Some (replace_tilde (homedir e @ ''/'')
                   (replace_string ''${extensionPath}'' (dirname e) (default_execPath e)))
         \<and> default_execPath e =
             (if platform e = ''win32'' then ''php-cs-fixer.bat'' else ''php-cs-fixer'')
         \<and> execPath (readConfig e this) = Some (default_execPath e)"
proof -
  have stored: "execPath (readConfig e this) =
      Some (replace_tilde (homedir e @ ''/'')
              (replace_string ''${extensionPath}'' (dirname e) (default_execPath e)))"
    using assms by (auto simp: readConfig_def Let_def)
  moreover have "default_execPath e =
      (if platform e = ''win32'' then ''php-cs-fixer.bat'' else ''php-cs-fixer'')"
    by (simp add: default_execPath_def)
  moreover have "execPath (readConfig e this) = Some (default_execPath e)"
    using stored by (simp only: replace_default_execPath)
  ultimately show ?thesis by blast
qed

theorem readConfig_default_execPath_witness:
  "\<not> isReloadingConfig ex_new \<and> getConfiguration ex_env = Some ex_config
   \<and> execPath_setting ex_config = None
   \<and> execPath (readConfig ex_env ex_new) = Some ''php-cs-fixer''
   \<and> execPath (readConfig (ex_env\<lparr>platform := ''win32''\<rparr>) ex_new) = Some ''php-cs-fixer.bat''"
proof -
  have a: "\<not> isReloadingConfig ex_new" by (simp add: ex_new_def)
  have b: "getConfiguration ex_env = Some ex_config" by (simp add: ex_env_def)
  have b': "getConfiguration (ex_env\<lparr>platform := ''win32''\<rparr>) = Some ex_config"
    by (simp add: ex_env_def)
  have c: "execPath_setting ex_config = None" by (simp add: ex_config_def)
  have d: "execPath_setting ex_config = None \<or> execPath_setting ex_config = Some []"
    using c by simp
  have l: "default_execPath ex_env = ''php-cs-fixer''"
    by (simp add: default_execPath_def ex_env_def)
  have w: "default_execPath (ex_env\<lparr>platform := ''win32''\<rparr>) = ''php-cs-fixer.bat''"
    by (simp add: default_execPath_def)
  have "execPath (readConfig ex_env ex_new) = Some (default_execPath ex_env)"
    using readConfig_default_execPath [OF a b d] by blast
  then have "execPath (readConfig ex_env ex_new) = Some ''php-cs-fixer''"
    by (simp only: l)
  moreover have "execPath (readConfig (ex_env\<lparr>platform := ''win32''\<rparr>) ex_new) =
      Some (default_execPath (ex_env\<lparr>platform := ''win32''\<rparr>))"
    using readConfig_default_execPath [OF a b' d] by blast
  then have "execPath (readConfig (ex_env\<lparr>platform := ''win32''\<rparr>) ex_new) = Some ''php-cs-fixer.bat''"
    by (simp only: w)
  ultimately show ?thesis using a b c by blast
qed

section \<open>The discovery of the configuration file\<close>

text \<open>
  In the two theorems of this section \<^verbatim>\<open>getArgs\<close> returns: there is an active editor,
  the settings are loaded with a \<^verbatim>\<open>config\<close> entry, and the assignment of
  \<^verbatim>\<open>realExecPath\<close> does not throw.
\<close>

text \<open>
  Claim C5. With the document of the active editor in the workspace folder \<open>root\<close>, the
  candidate files follow the entries of the \<^verbatim>\<open>config\<close> setting in their order, a relative
  entry giving its variant under \<^verbatim>\<open>root/.vscode/\<close> and then its variant under \<^verbatim>\<open>root/\<close>.
  The first candidate that exists is appended as \<^verbatim>\<open>--config=\<close> and the scan stops there:
  whatever follows the first existing candidate has no effect on the flag, and the
  arguments never hold more than one \<^verbatim>\<open>--config=\<close> flag.
\<close>

theorem getArgs_config_discovery:
  assumes "activeTextEditor e = Some ed"
    and "workspaceFolder ed = Some root"
    and "workspaceFolders e = Some (folder # folders)"
    and "execPath this = Some exe"
    and "config this = Some c"
    and "config_setting c = Some s"
  shows "config_files e (Some root) s =
           concat (map (\<lambda>f. if isAbsolute e f then [f]
                            else [root @ ''/.vscode/'' @ f, root @ ''/'' @ f]) (cFiles e s))
         \<and> fst (getArgs e w this) =
             Inr (base_args @
                  (case find (existsSync w) (config_files e (Some root) s) of
                     Some p \<Rightarrow> [''--config='' @ p]
                   | None \<Rightarrow> push_rules c ([], False)))
         \<and> (\<forall>before p later.
               config_files e (Some root) s = before @ p # later \<and> existsSync w p
               \<and> (\<forall>q\<in>set before. \<not> existsSync w q) \<longrightarrow>
               fst (getArgs e w this) = Inr (base_args @ [''--config='' @ p]))
         \<and> (\<forall>args. fst (getArgs e w this) = Inr args \<longrightarrow>
               length (filter (prefix ''--config='') args) \<le> 1)"
proof -
  obtain this' where r: "set_realExecPath e (workspaceFolder ed) (this\<lparr>realExecPath := None\<rparr>) = Inr this'"
    using set_realExecPath_workspace [OF assms(3,4)] by blast
  have args: "fst (getArgs e w this) =
      Inr (base_args @
           (case find (existsSync w) (config_files e (Some root) s) of
              Some p \<Rightarrow> [''--config='' @ p]
            | None \<Rightarrow> push_rules c ([], False)))"
    using getArgs_eq [OF assms(1,5,6) r, of w] assms(2) by simp
  have first: "fst (getArgs e w this) = Inr (base_args @ [''--config='' @ p])"
    if "config_files e (Some root) s = before @ p # later" and "existsSync w p"
      and "\<forall>q\<in>set before. \<not> existsSync w q" for before p later
    using find_first_existing [OF that] args by simp
  have single: "length (filter (prefix ''--config='') args) \<le> 1"
    if "fst (getArgs e w this) = Inr args" for args
  proof (cases "find (existsSync w) (config_files e (Some root) s)")
    case None
    with that args have "args = base_args @ push_rules c ([], False)" by simp
    then show ?thesis by (simp add: no_config_in_base_args no_config_in_rules)
  next
    case (Some p)
    with that args have "args = base_args @ [''--config='' @ p]" by simp
    then show ?thesis by (simp add: no_config_in_base_args)
  qed
  from config_files_eq args first single show ?thesis by blast
qed

theorem getArgs_config_discovery_witness:
  "existsSync ex_world ''/w/.php-cs-fixer.dist.php'' \<and> existsSync ex_world ''/home/u/x.php''
   \<and> config_files ex_env (Some ''/w'') ''.php-cs-fixer.php;.php-cs-fixer.dist.php;~/x.php'' =
       [''/w/.vscode/.php-cs-fixer.php'', ''/w/.php-cs-fixer.php'',
        ''/w/.vscode/.php-cs-fixer.dist.php'', ''/w/.php-cs-fixer.dist.php'', ''/home/u/x.php'']
   \<and> fst (getArgs ex_env ex_world ex_fixer) =
       Inr [''fix'', ''--using-cache=no'', ''--path-mode=override'', ''-vv'',
            ''--config=/w/.php-cs-fixer.dist.php'']"
proof -
  let ?s = "''.php-cs-fixer.php;.php-cs-fixer.dist.php;~/x.php''"
  let ?ed = "\<lparr>fsPath = ''/w/src/a.php'', workspaceFolder = Some ''/w''\<rparr>"
  have h1: "activeTextEditor ex_env = Some ?ed" by (rule ex_editor)
  have h2: "workspaceFolder ?ed = Some ''/w''" by simp
  have h3: "workspaceFolders ex_env = Some (''/w'' # [])" by (simp add: ex_env_def)
  have h4: "execPath ex_fixer = Some ''php-cs-fixer''" by (simp add: ex_fixer_def)
  have h5: "config ex_fixer = Some ex_config" by (simp add: ex_fixer_def)
  have h6: "config_setting ex_config = Some ?s" by (simp add: ex_config_def)
  note t = getArgs_config_discovery [OF h1 h2 h3 h4 h5 h6, of ex_world]
  have e1: "existsSync ex_world ''/w/.php-cs-fixer.dist.php''"
    and e2: "existsSync ex_world ''/home/u/x.php''"
    by (simp_all add: existsSync_def ex_world_def)
  have split: "config_files ex_env (Some ''/w'') ?s =
      [''/w/.vscode/.php-cs-fixer.php'', ''/w/.php-cs-fixer.php'', ''/w/.vscode/.php-cs-fixer.dist.php'']
      @ ''/w/.php-cs-fixer.dist.php'' # [''/home/u/x.php'']"
    by (simp add: ex_config_files)
  have none: "\<forall>q\<in>set [''/w/.vscode/.php-cs-fixer.php'', ''/w/.php-cs-fixer.php'',
                       ''/w/.vscode/.php-cs-fixer.dist.php'']. \<not> existsSync ex_world q"
    by (simp add: existsSync_def ex_world_def)
  from t split e1 none
  have "fst (getArgs ex_env ex_world ex_fixer) = Inr (base_args @ [''--config='' @ ''/w/.php-cs-fixer.dist.php''])"
    by blast
  then have "fst (getArgs ex_env ex_world ex_fixer) =
      Inr [''fix'', ''--using-cache=no'', ''--path-mode=override'', ''-vv'',
           ''--config=/w/.php-cs-fixer.dist.php'']"
    by (simp add: base_args_def)
  with e1 e2 ex_config_files show ?thesis by blast
qed

text \<open>
  Claim C8. When the discovery selects a configuration file, the arguments end with its
  \<^verbatim>\<open>--config=\<close> flag and hold no \<^verbatim>\<open>--rules=\<close> token, whatever the \<^verbatim>\<open>rules\<close> setting is.
  When it selects none, a rule object or array is appended as \<^verbatim>\<open>--rules=\<close> followed by
  its JSON text, a string that is not empty is appended as \<^verbatim>\<open>--rules=\<close> followed by the
  string as it is, and nothing is appended for an absent or empty setting.
\<close>

theorem getArgs_rules:
  assumes "activeTextEditor e = Some ed"
    and "config this = Some c"
    and "config_setting c = Some s"
    and "set_realExecPath e (workspaceFolder ed) (this\<lparr>realExecPath := None\<rparr>) = Inr this'"
  shows "(\<forall>p. find (existsSync w) (config_files e (workspaceFolder ed) s) = Some p \<longrightarrow>
            fst (getArgs e w this) = Inr (base_args @ [''--config='' @ p])
            \<and> (\<forall>args. fst (getArgs e w this) = Inr args \<longrightarrow> filter (prefix ''--rules='') args = []))
         \<and> (find (existsSync w) (config_files e (workspaceFolder ed) s) = None \<longrightarrow>
              fst (getArgs e w this) =
                Inr (base_args @
                     (case rules_setting c of
                        None \<Rightarrow> []
                      | Some (RulesString r) \<Rightarrow> if r = [] then [] else [''--rules='' @ r]
                      | Some (RulesObject kvs) \<Rightarrow> [''--rules='' @ stringify (JObject kvs)]
                      | Some (RulesArray xs) \<Rightarrow> [''--rules='' @ stringify (JArray xs)])))"
proof -
  have args: "fst (getArgs e w this) =
      Inr (base_args @
           (case find (existsSync w) (config_files e (workspaceFolder ed) s) of
              Some p \<Rightarrow> [''--config='' @ p]
            | None \<Rightarrow> push_rules c ([], False)))"
    using getArgs_eq [OF assms, of w] by simp
  have rules: "push_rules c ([], False) =
      (case rules_setting c of
         None \<Rightarrow> []
       | Some (RulesString r) \<Rightarrow> if r = [] then [] else [''--rules='' @ r]
       | Some (RulesObject kvs) \<Rightarrow> [''--rules='' @ stringify (JObject kvs)]
       | Some (RulesArray xs) \<Rightarrow> [''--rules='' @ stringify (JArray xs)])"
    by (simp add: push_rules_def split: option.splits rules.splits)
  have none: "filter (prefix ''--rules='') (base_args @ [''--config='' @ p]) = []" for p
    by (simp add: no_rules_in_base_args)
  from args rules none show ?thesis by simp
qed

theorem getArgs_rules_witness:
  "find (existsSync ex_world)
     (config_files ex_env (Some ''/w'') ''.php-cs-fixer.php;.php-cs-fixer.dist.php;~/x.php'') =
     Some ''/w/.php-cs-fixer.dist.php''
   \<and> rules_setting ex_config = Some (RulesString ''@PSR2'')
   \<and> fst (getArgs ex_env ex_world ex_fixer) =
       Inr [''fix'', ''--using-cache=no'', ''--path-mode=override'', ''-vv'',
            ''--config=/w/.php-cs-fixer.dist.php'']
   \<and> find (existsSync ex_empty_world) (config_files ex_env (Some ''/w'') ''.php-cs-fixer.php'') = None
   \<and> fst (getArgs ex_env ex_empty_world (ex_fixer\<lparr>config := Some ex_config_rules\<rparr>)) =
       Inr [''fix'', ''--using-cache=no'', ''--path-mode=override'', ''-vv'',
            ''--rules={'' @ [CHR 0x22] @ ''@PSR2'' @ [CHR 0x22] @ '':true,'' @ [CHR 0x22]
            @ ''array_syntax'' @ [CHR 0x22] @ '':{'' @ [CHR 0x22] @ ''syntax'' @ [CHR 0x22] @ '':''
            @ [CHR 0x22] @ ''short'' @ [CHR 0x22] @ ''}}'']"
proof -
  let ?s = "''.php-cs-fixer.php;.php-cs-fixer.dist.php;~/x.php''"
  let ?ed = "\<lparr>fsPath = ''/w/src/a.php'', workspaceFolder = Some ''/w''\<rparr>"
  have h1: "activeTextEditor ex_env = Some ?ed" by (rule ex_editor)
  have h2: "config ex_fixer = Some ex_config" by (simp add: ex_fixer_def)
  have h3: "config_setting ex_config = Some ?s" by (simp add: ex_config_def)
  have h4: "set_realExecPath ex_env (workspaceFolder ?ed) (ex_fixer\<lparr>realExecPath := None\<rparr>) =
      Inr (ex_fixer\<lparr>isFixing := False, realExecPath := Some ''php-cs-fixer''\<rparr>)"
    using ex_set_realExecPath [of False] by (simp add: ex_fixer_def)
  have found: "find (existsSync ex_world) (config_files ex_env (workspaceFolder ?ed) ?s) =
      Some ''/w/.php-cs-fixer.dist.php''"
    by (simp add: ex_config_files existsSync_def ex_world_def)
  have r: "rules_setting ex_config = Some (RulesString ''@PSR2'')" by (simp add: ex_config_def)
  from getArgs_rules [OF h1 h2 h3 h4, of ex_world] found
  have a: "fst (getArgs ex_env ex_world ex_fixer) = Inr (base_args @ [''--config='' @ ''/w/.php-cs-fixer.dist.php''])"
    by blast
  have g2: "config (ex_fixer\<lparr>config := Some ex_config_rules\<rparr>) = Some ex_config_rules" by simp
  have g3: "config_setting ex_config_rules = Some ''.php-cs-fixer.php''" by (simp add: ex_config_rules_def)
  have g4: "set_realExecPath ex_env (workspaceFolder ?ed)
              (ex_fixer\<lparr>config := Some ex_config_rules\<rparr>\<lparr>realExecPath := None\<rparr>) =
            Inr (ex_fixer\<lparr>config := Some ex_config_rules, realExecPath := Some ''php-cs-fixer''\<rparr>)"
    using ex_rules_fixer by simp
  have nf: "find (existsSync ex_empty_world) (config_files ex_env (workspaceFolder ?ed) ''.php-cs-fixer.php'') = None"
    by (rule find_empty_world)
  from getArgs_rules [OF h1 g2 g3 g4, of ex_empty_world] nf
  have "fst (getArgs ex_env ex_empty_world (ex_fixer\<lparr>config := Some ex_config_rules\<rparr>)) =
      Inr (base_args @
           (case rules_setting ex_config_rules of
              None \<Rightarrow> []
            | Some (RulesString r) \<Rightarrow> if r = [] then [] else [''--rules='' @ r]
            | Some (RulesObject kvs) \<Rightarrow> [''--rules='' @ stringify (JObject kvs)]
            | Some (RulesArray xs) \<Rightarrow> [''--rules='' @ stringify (JArray xs)]))"
    by blast
  then have b: "fst (getArgs ex_env ex_empty_world (ex_fixer\<lparr>config := Some ex_config_rules\<rparr>)) =
       Inr [''fix'', ''--using-cache=no'', ''--path-mode=override'', ''-vv'',
            ''--rules={'' @ [CHR 0x22] @ ''@PSR2'' @ [CHR 0x22] @ '':true,'' @ [CHR 0x22]
            @ ''array_syntax'' @ [CHR 0x22] @ '':{'' @ [CHR 0x22] @ ''syntax'' @ [CHR 0x22] @ '':''
            @ [CHR 0x22] @ ''short'' @ [CHR 0x22] @ ''}}'']"
    by (simp add: ex_config_rules_def base_args_def quote_def quote_char_def)
  from a have a': "fst (getArgs ex_env ex_world ex_fixer) =
       Inr [''fix'', ''--using-cache=no'', ''--path-mode=override'', ''-vv'',
            ''--config=/w/.php-cs-fixer.dist.php'']"
    by (simp add: base_args_def)
  from found r a' nf b show ?thesis by simp
qed

section \<open>The edits of the formatting provider\<close>

text \<open>
  Claim C9. When \<^verbatim>\<open>fixDocument\<close> resolves with a fixed text, the provider resolves with
  one edit that carries the fixed text over the range from line 0, character 0 to the
  end of the last line if the fixed text differs from the text of the document, and
  with no edit if the two are equal.
\<close>

theorem provider_edits:
  assumes "doc_lines d \<noteq> []"
    and "fst (fixDocument e events (getText d) this w) = Resolved (Some fixed)"
  shows "fst (registerDocumentProvider e events d this w) =
     (if fixed \<noteq> getText d
      then Resolved
             [TextEdit
                (Range_edit (Position 0 0)
                   (Position (length (doc_lines d) - 1) (length (last (doc_lines d)))))
                (Some fixed)]
      else Resolved [])"
proof -
  have "lineCount d \<noteq> 0"
    using assms(1) by (simp add: lineCount_def)
  moreover have "lineAt_end d (lineCount d - 1) =
      Inr (Position (length (doc_lines d) - 1) (length (last (doc_lines d))))"
    using assms(1) by (simp add: lineAt_end_def lineCount_def last_conv_nth)
  moreover obtain t1 w1 where "fixDocument e events (getText d) this w = (Resolved (Some fixed), t1, w1)"
    using assms(2) by (cases "fixDocument e events (getText d) this w") auto
  ultimately show ?thesis
    by (simp add: registerDocumentProvider_def Let_def)
qed

theorem provider_edits_witness:
  "doc_lines ex_document \<noteq> []
   \<and> fst (registerDocumentProvider ex_env
            [FileWritten ''/tmp/a.php'' (Some (File ''<?php echo 1;'')), ExitEvent (Some 0)]
            ex_document ex_fixer ex_world) =
       Resolved [TextEdit (Range_edit (Position 0 0) (Position 1 10)) (Some ''<?php echo 1;'')]
   \<and> fst (registerDocumentProvider ex_env [ExitEvent (Some 0)] ex_document ex_fixer ex_world) =
       Resolved []"
proof -
  have l: "doc_lines ex_document \<noteq> []" by (simp add: ex_document_def)
  have f1: "fst (fixDocument ex_env
                   [FileWritten ''/tmp/a.php'' (Some (File ''<?php echo 1;'')), ExitEvent (Some 0)]
                   (getText ex_document) ex_fixer ex_world) = Resolved (Some ''<?php echo 1;'')"
    by (simp add: ex_fixDocument run_process_def on_exit_def readFileSync_def settle_def)
  have f2: "fst (fixDocument ex_env [ExitEvent (Some 0)] (getText ex_document) ex_fixer ex_world) =
      Resolved (Some (getText ex_document))"
    by (simp add: ex_fixDocument run_process_def on_exit_def readFileSync_def settle_def spawn_def ex_getText)
  from provider_edits [OF l f1] provider_edits [OF l f2] l show ?thesis
    by (simp add: ex_getText) (simp add: ex_document_def)
qed

section \<open>One fix at a time\<close>

text \<open>
  Claim C4. A call of \<^verbatim>\<open>fixDocument\<close> while the flag \<^verbatim>\<open>isFixing\<close> is set returns at once:
  its promise is resolved with no value, and the fields and the world (the file system,
  the list of spawned processes, the notifications) are what they were, whatever the
  text and whatever a child process would have done.
\<close>

theorem fixDocument_busy:
  assumes "isFixing this"
  shows "fixDocument_start e text this w = (Settled (Resolved None), this, w)
         \<and> fixDocument e events text this w = (Resolved None, this, w)"
  using assms by (simp add: fixDocument_def fixDocument_start_def)

theorem fixDocument_busy_witness:
  "isFixing (ex_fixer\<lparr>isFixing := True\<rparr>)
   \<and> fixDocument ex_env [ExitEvent (Some 0)] ''<?php echo 2;'' (ex_fixer\<lparr>isFixing := True\<rparr>) ex_world =
       (Resolved None, ex_fixer\<lparr>isFixing := True\<rparr>, ex_world)"
proof -
  have busy: "isFixing (ex_fixer\<lparr>isFixing := True\<rparr>)" by simp
  from fixDocument_busy [OF busy] busy show ?thesis by blast
qed

section \<open>The exit of the child process\<close>

text \<open>
  In the theorems of this section the events \<open>pre\<close> are what the child process does
  before it exits, and the promise is still pending after them: the call has spawned
  the process and no listener has settled it. The events \<open>post\<close> are what arrives after
  the exit, such as data left in the streams.
\<close>

text \<open>
  Claim C7. When the child process exits with code 0 and the temporary file read back
  is not empty, the promise of \<^verbatim>\<open>fixDocument\<close> is resolved with exactly the content
  read, and it is not rejected.
\<close>

theorem fixDocument_resolves:
  assumes "activeTextEditor e = Some ed"
    and "fst (fixDocument e pre text this w) = Pending"
    and "readFileSync (tmpdir e @ replace_dirs (fsPath ed)) (snd (snd (fixDocument e pre text this w))) = Inr fixed"
    and "fixed \<noteq> []"
  shows "fst (fixDocument e (pre @ ExitEvent (Some 0) # post) text this w) = Resolved (Some fixed)"
proof -
  obtain t1 w1 where s: "fixDocument e pre text this w = (Pending, t1, w1)"
    using assms(2) by (cases "fixDocument e pre text this w") auto
  have "fst (on_exit (tmpdir e @ replace_dirs (fsPath ed)) (Some 0) (Pending, t1, w1)) = Resolved (Some fixed)"
    using assms(3,4) s by (simp add: on_exit_Pending_0)
  then show ?thesis
    unfolding fixDocument_in_flight [OF assms(2,1)] run_process_exit s
    by (simp add: run_process_settled)
qed

theorem fixDocument_resolves_witness:
  "fst (fixDocument ex_env
          [StderrData ''Loaded config default.'', FileWritten ''/tmp/a.php'' (Some (File ''<?php echo 1;''))]
          ''<?php   echo 1;'' ex_fixer ex_world) = Pending
   \<and> fst (fixDocument ex_env
            ([StderrData ''Loaded config default.'', FileWritten ''/tmp/a.php'' (Some (File ''<?php echo 1;''))]
             @ ExitEvent (Some 0) # [StdoutData ''done''])
            ''<?php   echo 1;'' ex_fixer ex_world) = Resolved (Some ''<?php echo 1;'')"
proof -
  let ?pre = "[StderrData ''Loaded config default.'', FileWritten ''/tmp/a.php'' (Some (File ''<?php echo 1;''))]"
  have p: "fst (fixDocument ex_env ?pre ''<?php   echo 1;'' ex_fixer ex_world) = Pending"
    by (simp add: ex_fixDocument run_process_def)
  have r: "readFileSync
             (tmpdir ex_env @ replace_dirs (fsPath \<lparr>fsPath = ''/w/src/a.php'', workspaceFolder = Some ''/w''\<rparr>))
             (snd (snd (fixDocument ex_env ?pre ''<?php   echo 1;'' ex_fixer ex_world))) =
           Inr ''<?php echo 1;''"
    unfolding ex_filePath
    by (simp add: ex_fixDocument run_process_def readFileSync_def)
  have n: "''<?php echo 1;'' \<noteq> []" by simp
  from fixDocument_resolves [OF ex_editor p r n, where post = "[StdoutData ''done'']"] p
  show ?thesis by blast
qed

text \<open>
  Claim C2. When the child process exits with code 0 and the temporary file read back
  is empty, the promise is rejected with no reason, and the success message is shown
  all the same.
\<close>

theorem fixDocument_empty_output:
  assumes "activeTextEditor e = Some ed"
    and "fst (fixDocument e pre text this w) = Pending"
    and "readFileSync (tmpdir e @ replace_dirs (fsPath ed)) (snd (snd (fixDocument e pre text this w))) = Inr []"
  shows "fst (fixDocument e (pre @ ExitEvent (Some 0) # post) text this w) = Rejected NoReason
         \<and> ui (snd (snd (fixDocument e (pre @ [ExitEvent (Some 0)]) text this w))) =
             ui (snd (snd (fixDocument e pre text this w)))
             @ [StatusBarMessage ''PHP CS Fixer: Fixed all files!'' 5000]"
proof -
  obtain t1 w1 where s: "fixDocument e pre text this w = (Pending, t1, w1)"
    using assms(2) by (cases "fixDocument e pre text this w") auto
  let ?fp = "tmpdir e @ replace_dirs (fsPath ed)"
  have ex: "on_exit ?fp (Some 0) (Pending, t1, w1) =
      (Rejected NoReason, t1\<lparr>isFixing := False\<rparr>,
       unlink ?fp (showView ''success'' ''PHP CS Fixer: Fixed all files!'' w1))"
    using assms(3) s by (simp add: on_exit_Pending_0)
  have "fst (fixDocument e (pre @ ExitEvent (Some 0) # post) text this w) = Rejected NoReason"
    unfolding fixDocument_in_flight [OF assms(2,1)] run_process_exit s ex
    by (simp add: run_process_settled)
  moreover have "ui (snd (snd (fixDocument e (pre @ [ExitEvent (Some 0)]) text this w))) =
      ui (snd (snd (fixDocument e pre text this w)))
      @ [StatusBarMessage ''PHP CS Fixer: Fixed all files!'' 5000]"
    unfolding fixDocument_in_flight [OF assms(2,1)] run_process_exit_only s ex
    by (simp add: ui_unlink showView_def)
  ultimately show ?thesis by blast
qed

theorem fixDocument_empty_output_witness:
  "fst (fixDocument ex_env [FileWritten ''/tmp/a.php'' (Some (File []))] ''<?php echo 1;'' ex_fixer ex_world) = Pending
   \<and> fst (fixDocument ex_env ([FileWritten ''/tmp/a.php'' (Some (File []))] @ ExitEvent (Some 0) # [])
            ''<?php echo 1;'' ex_fixer ex_world) = Rejected NoReason
   \<and> ui (snd (snd (fixDocument ex_env ([FileWritten ''/tmp/a.php'' (Some (File []))] @ [ExitEvent (Some 0)])
            ''<?php echo 1;'' ex_fixer ex_world))) =
       [StatusBarMessage ''PHP CS Fixer: Fixed all files!'' 5000]"
proof -
  let ?pre = "[FileWritten ''/tmp/a.php'' (Some (File []))]"
  have p: "fst (fixDocument ex_env ?pre ''<?php echo 1;'' ex_fixer ex_world) = Pending"
    by (simp add: ex_fixDocument run_process_def)
  have r: "readFileSync
             (tmpdir ex_env @ replace_dirs (fsPath \<lparr>fsPath = ''/w/src/a.php'', workspaceFolder = Some ''/w''\<rparr>))
             (snd (snd (fixDocument ex_env ?pre ''<?php echo 1;'' ex_fixer ex_world))) = Inr []"
    unfolding ex_filePath
    by (simp add: ex_fixDocument run_process_def readFileSync_def spawn_def)
  have u: "ui (snd (snd (fixDocument ex_env ?pre ''<?php echo 1;'' ex_fixer ex_world))) = []"
    unfolding ex_fixDocument by (simp add: run_process_def spawn_def ex_world_def)
  from fixDocument_empty_output [OF ex_editor p r, where post = "[]"] p u show ?thesis by simp
qed

text \<open>
  Claim C3, as the code has it. For every exit code other than 0 the promise is
  rejected with the message of the table: a general error for 1, a configuration error
  of the application for 16, a configuration error of a fixer for 32, an exception
  raised within the application for 64, and an unknown error for any other code and
  for an exit without code. This holds for 16 as well, where no notification is shown.
\<close>

theorem fixDocument_failure_message:
  assumes "fst (fixDocument e pre text this w) = Pending"
    and "code \<noteq> Some 0"
  shows "fst (fixDocument e (pre @ ExitEvent code # post) text this w) =
     Rejected (Message
       (if code = Some 1 then ''PHP CS Fixer: php general error.''
        else if code = Some 16 then ''PHP CS Fixer: Configuration error of the application.''
        else if code = Some 32 then ''PHP CS Fixer: Configuration error of a Fixer.''
        else if code = Some 64 then ''PHP CS Fixer: Exception raised within the application.''
        else ''PHP CS Fixer: Unknown error.''))"
proof -
  obtain fp t1 w1 where
    run: "fixDocument e (pre @ ExitEvent code # post) text this w =
           run_process fp post (on_exit fp code (Pending, t1, w1))"
    using assms(1) by (rule in_flight_exit) blast
  have "fst (on_exit fp code (Pending, t1, w1)) = Rejected (Message (msg_for code))"
    using assms(2) by (simp add: on_exit_Pending_failed)
  then have "fst (fixDocument e (pre @ ExitEvent code # post) text this w) =
      Rejected (Message (msg_for code))"
    unfolding run by (simp add: run_process_settled)
  then show ?thesis by (simp only: msg_for_eq)
qed

theorem fixDocument_failure_message_witness:
  "fst (fixDocument ex_env [] ''<?php echo 1;'' ex_fixer ex_world) = Pending
   \<and> fst (fixDocument ex_env ([] @ ExitEvent (Some 32) # []) ''<?php echo 1;'' ex_fixer ex_world) =
       Rejected (Message ''PHP CS Fixer: Configuration error of a Fixer.'')
   \<and> fst (fixDocument ex_env ([] @ ExitEvent (Some 16) # []) ''<?php echo 1;'' ex_fixer ex_world) =
       Rejected (Message ''PHP CS Fixer: Configuration error of the application.'')
   \<and> fst (fixDocument ex_env ([] @ ExitEvent None # []) ''<?php echo 1;'' ex_fixer ex_world) =
       Rejected (Message ''PHP CS Fixer: Unknown error.'')"
proof -
  have a: "Some (32::int) \<noteq> Some 0" and b: "Some (16::int) \<noteq> Some 0" and c: "(None::int option) \<noteq> Some 0"
    by simp_all
  have p: "fst (fixDocument ex_env [] ''<?php echo 1;'' ex_fixer ex_world) = Pending"
    by (rule ex_in_flight)
  from fixDocument_failure_message [OF p a, where post = "[]"]
    fixDocument_failure_message [OF p b, where post = "[]"]
    fixDocument_failure_message [OF p c, where post = "[]"] p
  show ?thesis by simp
qed

text \<open>
  Claim C3, as it is stated, gives 16 to the configuration error of a fixer. The run
  that exits with 16 is rejected with another message.
\<close>

theorem fixDocument_claimed_table_counterexample:
  "fst (fixDocument ex_env [ExitEvent (Some 16)] ''<?php echo 1;'' ex_fixer ex_world) \<noteq>
     Rejected (Message (kind_message (claimed_kind 16)))"
proof -
  have "fst (fixDocument ex_env [ExitEvent (Some 16)] ''<?php echo 1;'' ex_fixer ex_world) =
      Rejected (Message ''PHP CS Fixer: Configuration error of the application.'')"
    by (simp add: ex_fixDocument run_process_def on_exit_Pending_failed msg_for_eq)
  moreover have "kind_message (claimed_kind 16) = ''PHP CS Fixer: Configuration error of a Fixer.''"
    by (simp add: claimed_kind_def)
  ultimately show ?thesis by simp
qed

text \<open>
  Claim C6. An exit with code 16 rejects the promise with the message
  \<^verbatim>\<open>PHP CS Fixer: Configuration error of the application.\<close> and shows no notification; an
  exit with code 64 rejects it with the message
  \<^verbatim>\<open>PHP CS Fixer: Exception raised within the application.\<close> and shows that message as
  an error notification.
\<close>

theorem fixDocument_exit_16_64:
  assumes "fst (fixDocument e pre text this w) = Pending"
  shows "fst (fixDocument e (pre @ ExitEvent (Some 16) # post) text this w) =
           Rejected (Message ''PHP CS Fixer: Configuration error of the application.'')
         \<and> ui (snd (snd (fixDocument e (pre @ [ExitEvent (Some 16)]) text this w))) =
             ui (snd (snd (fixDocument e pre text this w)))
         \<and> fst (fixDocument e (pre @ ExitEvent (Some 64) # post) text this w) =
             Rejected (Message ''PHP CS Fixer: Exception raised within the application.'')
         \<and> ui (snd (snd (fixDocument e (pre @ [ExitEvent (Some 64)]) text this w))) =
             ui (snd (snd (fixDocument e pre text this w)))
             @ [ErrorMessage ''PHP CS Fixer: Exception raised within the application.'']"
proof -
  obtain fp t1 w1 where s: "fixDocument e pre text this w = (Pending, t1, w1)"
    and run: "\<And>code post. fixDocument e (pre @ ExitEvent code # post) text this w =
           run_process fp post (on_exit fp code (Pending, t1, w1))"
    using assms by (rule in_flight_exit) blast
  have m16: "msg_for (Some 16) = ''PHP CS Fixer: Configuration error of the application.''"
    and m64: "msg_for (Some 64) = ''PHP CS Fixer: Exception raised within the application.''"
    by (simp_all add: msg_for_eq)
  have "fst (fixDocument e (pre @ ExitEvent (Some 16) # post) text this w) =
      Rejected (Message ''PHP CS Fixer: Configuration error of the application.'')"
    unfolding run by (simp add: on_exit_Pending_failed run_process_settled m16)
  moreover have "ui (snd (snd (fixDocument e (pre @ [ExitEvent (Some 16)]) text this w))) =
      ui (snd (snd (fixDocument e pre text this w)))"
    unfolding run s by (simp add: on_exit_Pending_failed run_process_def ui_unlink)
  moreover have "fst (fixDocument e (pre @ ExitEvent (Some 64) # post) text this w) =
      Rejected (Message ''PHP CS Fixer: Exception raised within the application.'')"
    unfolding run by (simp add: on_exit_Pending_failed run_process_settled m64)
  moreover have "ui (snd (snd (fixDocument e (pre @ [ExitEvent (Some 64)]) text this w))) =
      ui (snd (snd (fixDocument e pre text this w)))
      @ [ErrorMessage ''PHP CS Fixer: Exception raised within the application.'']"
    unfolding run s by (simp add: on_exit_Pending_failed run_process_def ui_unlink m64 showView_def)
  ultimately show ?thesis by blast
qed

theorem fixDocument_exit_16_64_witness:
  "fst (fixDocument ex_env [] ''<?php echo 1;'' ex_fixer ex_world) = Pending
   \<and> fst (fixDocument ex_env ([] @ ExitEvent (Some 16) # []) ''<?php echo 1;'' ex_fixer ex_world) =
       Rejected (Message ''PHP CS Fixer: Configuration error of the application.'')
   \<and> ui (snd (snd (fixDocument ex_env ([] @ [ExitEvent (Some 16)]) ''<?php echo 1;'' ex_fixer ex_world))) = []
   \<and> fst (fixDocument ex_env ([] @ ExitEvent (Some 64) # []) ''<?php echo 1;'' ex_fixer ex_world) =
       Rejected (Message ''PHP CS Fixer: Exception raised within the application.'')
   \<and> ui (snd (snd (fixDocument ex_env ([] @ [ExitEvent (Some 64)]) ''<?php echo 1;'' ex_fixer ex_world))) =
       [ErrorMessage ''PHP CS Fixer: Exception raised within the application.'']"
proof -
  have p: "fst (fixDocument ex_env [] ''<?php echo 1;'' ex_fixer ex_world) = Pending"
    by (rule ex_in_flight)
  from fixDocument_exit_16_64 [OF p, where post = "[]"] p
    ex_in_flight_ui [of "''<?php echo 1;''"]
  show ?thesis by simp
qed

section \<open>Cleaning up\<close>

text \<open>
  The listener of \<^verbatim>\<open>exit\<close> ends by removing the temporary file and clearing the flag,
  whenever it is not left early by a failed read.
\<close>

lemma fixDocument_exit_cleans_up:
  assumes "activeTextEditor e = Some ed"
    and "fst (fixDocument e pre text this w) = Pending"
    and "code \<noteq> Some 0 \<or>
         readFileSync (tmpdir e @ replace_dirs (fsPath ed)) (snd (snd (fixDocument e pre text this w))) = Inr fixed"
  shows "\<not> isFixing (fst (snd (fixDocument e (pre @ [ExitEvent code]) text this w)))"
    and "fs (snd (snd (fixDocument e (pre @ [ExitEvent code]) text this w)))
           (tmpdir e @ replace_dirs (fsPath ed)) \<noteq> Some (File c)"
proof -
  obtain t1 w1 where s: "fixDocument e pre text this w = (Pending, t1, w1)"
    using assms(2) by (cases "fixDocument e pre text this w") auto
  let ?fp = "tmpdir e @ replace_dirs (fsPath ed)"
  have "\<exists>p w2. on_exit ?fp code (Pending, t1, w1) = (p, t1\<lparr>isFixing := False\<rparr>, unlink ?fp w2)"
  proof (cases "code = Some 0")
    case True
    with assms(3) s show ?thesis by (auto simp: on_exit_Pending_0)
  next
    case False
    then show ?thesis by (auto simp: on_exit_Pending_failed)
  qed
  then obtain p w2 where ex: "on_exit ?fp code (Pending, t1, w1) = (p, t1\<lparr>isFixing := False\<rparr>, unlink ?fp w2)"
    by blast
  have gone: "fs (unlink ?fp w2) ?fp \<noteq> Some (File c)"
    by (simp add: unlink_def split: option.splits node.splits)
  show "\<not> isFixing (fst (snd (fixDocument e (pre @ [ExitEvent code]) text this w)))"
    unfolding fixDocument_in_flight [OF assms(2,1)] run_process_exit_only s ex by simp
  show "fs (snd (snd (fixDocument e (pre @ [ExitEvent code]) text this w))) ?fp \<noteq> Some (File c)"
    unfolding fixDocument_in_flight [OF assms(2,1)] run_process_exit_only s ex using gone by simp
qed

text \<open>
  Claim C1. The claim is that the temporary file is gone and the flag is cleared after
  every operation, also after an \<^verbatim>\<open>error\<close> event of the child process. In the run below
  the executable is not found: the only event is \<^verbatim>\<open>error\<close>, the promise is rejected with
  the error object, the flag stays set and the temporary file stays where it was
  written.
\<close>

theorem fixDocument_error_leaves_busy:
  "fst (fixDocument ex_env [ErrorEvent ''spawn php-cs-fixer ENOENT''] ''<?php echo 1;'' ex_fixer ex_world) =
     Rejected (ErrorObject ''spawn php-cs-fixer ENOENT'')
   \<and> isFixing (fst (snd (fixDocument ex_env [ErrorEvent ''spawn php-cs-fixer ENOENT''] ''<?php echo 1;'' ex_fixer ex_world)))
   \<and> fs (snd (snd (fixDocument ex_env [ErrorEvent ''spawn php-cs-fixer ENOENT''] ''<?php echo 1;'' ex_fixer ex_world)))
        ''/tmp/a.php'' = Some (File ''<?php echo 1;'')"
  by (simp add: ex_fixDocument run_process_def on_error_def settle_def spawn_def)

end
